theory Spec2Isabelle
  imports Main "HOL-Library.Char_ord" "HOL-Library.List_Lexorder"
begin

section \<open>Python values and the arguments of \<open>preproc\<close>\<close>

text \<open>
  \<open>preproc\<close> inspects the runtime type of each argument with \<open>type(...)\<close>, so an
  argument is a dynamically typed value. Data frames are mutable objects: an argument of
  type DataFrame is a reference into a store of frames.
\<close>

type_synonym addr = nat

datatype pytype =
  TDataFrame | TNoneType | TBool | TList | TNdarray | TDict | TTuple | TInt | TStr

datatype 'v pyval =
    PyDataFrame addr
  | PyNone
  | PyBool bool
  | PyList "string list"
  | PyNdarray "string list"
  | PyDict "(string \<times> 'v list) list"
  | PyTuple "string list"
  | PyInt int
  | PyStr string

fun type_of :: "'v pyval \<Rightarrow> pytype" where
  "type_of (PyDataFrame a) = TDataFrame"
| "type_of PyNone = TNoneType"
| "type_of (PyBool b) = TBool"
| "type_of (PyList xs) = TList"
| "type_of (PyNdarray xs) = TNdarray"
| "type_of (PyDict d) = TDict"
| "type_of (PyTuple xs) = TTuple"
| "type_of (PyInt i) = TInt"
| "type_of (PyStr s) = TStr"

record 'v args =
  X_train :: "'v pyval"
  X_test :: "'v pyval"
  auto :: "'v pyval"
  OHE :: "'v pyval"
  standard_scale :: "'v pyval"
  robust_scale :: "'v pyval"
  numerical_impute :: "'v pyval"
  categorical_impute :: "'v pyval"
  label_encode :: "'v pyval"

text \<open>The signature's defaults: only \<open>X_train\<close> is required.\<close>

definition default_args :: "'v pyval \<Rightarrow> 'v args" where
  "default_args tr =
     \<lparr>X_train = tr, X_test = PyNone, auto = PyBool False, OHE = PyList [],
      standard_scale = PyList [], robust_scale = PyList [], numerical_impute = PyList [],
      categorical_impute = PyList [], label_encode = PyDict []\<rparr>"

datatype conflict = ManualList "string list" | LabelKeys

datatype error =
    TypeMismatch string "pytype list" pytype
  | ConfigConflict conflict
  | MissingColumn string
  | NotUnique string
  | IndexError nat
  | InvalidData
  | UnknownCategory
  | ShapeMismatch nat nat
  | UnseenLabel
  | ColumnsMissing string
  | ZeroDivision
  | SparseResult

text \<open>\<open>args = locals().copy()\<close>: the parameters by name, in the order of the signature.\<close>

definition locals :: "'v args \<Rightarrow> (string \<times> 'v pyval) list" where
  "locals a =
     [(''X_train'', X_train a), (''X_test'', X_test a), (''auto'', auto a), (''OHE'', OHE a),
      (''standard_scale'', standard_scale a), (''robust_scale'', robust_scale a),
      (''numerical_impute'', numerical_impute a),
      (''categorical_impute'', categorical_impute a), (''label_encode'', label_encode a)]"

definition arg_types :: "string \<Rightarrow> pytype list" where
  "arg_types key =
     (if key = ''X_train'' then [TDataFrame]
      else if key = ''X_test'' then [TNoneType, TDataFrame]
      else if key = ''auto'' then [TBool]
      else if key = ''OHE'' then [TList, TNdarray]
      else if key = ''standard_scale'' then [TList, TNdarray]
      else if key = ''robust_scale'' then [TList, TNdarray]
      else if key = ''numerical_impute'' then [TList, TNdarray]
      else if key = ''categorical_impute'' then [TList, TNdarray]
      else if key = ''label_encode'' then [TDict]
      else [])"

text \<open>The loop \<open>for arg_key in args.keys()\<close>: the first violation raises.\<close>

fun check_types :: "(string \<times> 'v pyval) list \<Rightarrow> error option" where
  "check_types [] = None"
| "check_types ((arg_key, v) # rest) =
     (if type_of v \<notin> set (arg_types arg_key)
      then Some (TypeMismatch arg_key (arg_types arg_key) (type_of v))
      else check_types rest)"

text \<open>
  Reading an argument at the type the check has established. The last equation of each
  function is never reached once \<open>check_types\<close> has passed.
\<close>

fun frame_ref :: "'v pyval \<Rightarrow> addr option" where
  "frame_ref (PyDataFrame a) = Some a"
| "frame_ref _ = None"

fun truth :: "'v pyval \<Rightarrow> bool" where
  "truth (PyBool b) = b"
| "truth _ = False"

fun names_of :: "'v pyval \<Rightarrow> string list" where
  "names_of (PyList xs) = xs"
| "names_of (PyNdarray xs) = xs"
| "names_of _ = []"

fun items_of :: "'v pyval \<Rightarrow> (string \<times> 'v list) list" where
  "items_of (PyDict d) = d"
| "items_of _ = []"

section \<open>Data frames and the store\<close>

datatype dtype = Float64 | Int64 | ObjectDtype | BoolDtype | CategoryDtype | OtherDtype

text \<open>
  A cell holds a value of the data, a missing marker, an indicator written by the one-hot
  encoder (0.0 or 1.0) or an integer code written by the label encoder. A number is held
  by its value; how it is stored (as an integer, as a float, as an object) is the dtype of
  its column.
\<close>

datatype 'v cell = Val 'v | Missing | Ind bool | Code nat

record 'v column =
  cname :: string
  cdtype :: dtype
  cvals :: "'v cell list"

type_synonym 'v frame = "'v column list"

record 'v heap =
  objs :: "addr \<Rightarrow> 'v frame"
  fresh :: addr

text \<open>\<open>X.copy()\<close> and \<open>pd.DataFrame(...)\<close> both create a new object.\<close>

definition new_frame :: "'v frame \<Rightarrow> 'v heap \<Rightarrow> addr \<times> 'v heap" where
  "new_frame f h = (fresh h, \<lparr>objs = (objs h)(fresh h := f), fresh = Suc (fresh h)\<rparr>)"

definition copy_frame :: "addr \<Rightarrow> 'v heap \<Rightarrow> addr \<times> 'v heap" where
  "copy_frame a h = new_frame (objs h a) h"

definition columns :: "'v frame \<Rightarrow> string list" where
  "columns X = map cname X"

text \<open>
  Selecting one column by its label. A label that names no column raises; a label
  that names several columns does not give a single column, and both the column
  transformer and the label encoder raise ValueError on it.
\<close>

definition get_column :: "'v frame \<Rightarrow> string \<Rightarrow> error + 'v column" where
  "get_column X n =
     (case filter (\<lambda>c. cname c = n) X of
        [] \<Rightarrow> Inl (MissingColumn n)
      | [c] \<Rightarrow> Inr c
      | _ \<Rightarrow> Inl (NotUnique n))"

fun get_columns :: "'v frame \<Rightarrow> string list \<Rightarrow> error + 'v column list" where
  "get_columns X [] = Inr []"
| "get_columns X (n # ns) =
     (case get_column X n of
        Inl e \<Rightarrow> Inl e
      | Inr c \<Rightarrow> (case get_columns X ns of Inl e \<Rightarrow> Inl e | Inr cs \<Rightarrow> Inr (c # cs)))"

text \<open>\<open>X.select_dtypes(include=...).columns.values\<close>\<close>

definition select_dtypes :: "'v frame \<Rightarrow> dtype list \<Rightarrow> string list" where
  "select_dtypes X include = map cname (filter (\<lambda>c. cdtype c \<in> set include) X)"

section \<open>The library's transformers\<close>

text \<open>
  What the libraries compute in floating point, or by numpy's and pandas' conversion
  rules, is a parameter of the model:
  \<^item> the numeric kernels, each taking the training column it was fitted on and the column
    to transform (the exceptions they raise on data they cannot convert to numbers are not
    modelled);
  \<^item> \<open>fill_value\<close>, the literal \<open>'missing'\<close> as a value of the data, and \<open>category_str\<close>,
    \<open>str\<close> on a category;
  \<^item> \<open>stacked_dtype\<close>, the common dtype of an array stacked from columns of several dtypes,
    and \<open>coerce\<close>, the conversion of a cell into that dtype;
  \<^item> \<open>label_equal\<close>, the label encoder's comparison of a cell of a column of the given
    dtype with one of its classes, made by numpy after conversion to a common dtype.
\<close>

record 'v kernels =
  fill_value :: 'v
  median_impute :: "'v cell list \<Rightarrow> 'v cell list \<Rightarrow> 'v cell list"
  standard_scaler :: "'v cell list \<Rightarrow> 'v cell list \<Rightarrow> 'v cell list"
  robust_scaler :: "'v cell list \<Rightarrow> 'v cell list \<Rightarrow> 'v cell list"
  category_str :: "'v \<Rightarrow> string"
  stacked_dtype :: "dtype list \<Rightarrow> dtype"
  coerce :: "dtype \<Rightarrow> 'v cell \<Rightarrow> 'v cell"
  label_equal :: "dtype \<Rightarrow> 'v cell \<Rightarrow> 'v \<Rightarrow> bool"

datatype step = CatImputer | NumImputer | OneHot bool | Standard | Robust

type_synonym transformers = "(string \<times> step \<times> string list) list"

datatype 'v fitted_step =
    FCatImputer
  | FNumImputer "'v cell list"
  | FOneHot bool "'v list"
  | FStandard "'v cell list"
  | FRobust "'v cell list"

text \<open>
  The fitted transformer: the fitted groups, the labels of the remainder columns (recorded
  by position at fit, selected by label at transform) and \<open>sparse_output_\<close>.
\<close>

record 'v fitted =
  groups :: "(string \<times> string list \<times> 'v fitted_step list) list"
  remainder :: "string list"
  sparse_output :: bool

text \<open>The dtype of a transformer's output: float64, but object for the constant imputer.\<close>

fun step_dtype :: "'v fitted_step \<Rightarrow> dtype" where
  "step_dtype FCatImputer = ObjectDtype"
| "step_dtype _ = Float64"

text \<open>Only the one-hot encoder returns a sparse matrix.\<close>

fun sparse_step :: "'v fitted_step \<Rightarrow> bool" where
  "sparse_step (FOneHot drop_first cats) = True"
| "sparse_step _ = False"

definition cell_values :: "'v cell list \<Rightarrow> 'v list" where
  "cell_values col = concat (map (\<lambda>c. case c of Val v \<Rightarrow> [v] | _ \<Rightarrow> []) col)"

text \<open>
  \<open>OneHotEncoder.fit\<close> learns the sorted distinct values of a column; it refuses a column
  with no rows or with a cell that is not a value.
\<close>

fun fit_step :: "step \<Rightarrow> ('v::linorder) cell list \<Rightarrow> error + 'v fitted_step" where
  "fit_step CatImputer col = Inr FCatImputer"
| "fit_step NumImputer col = Inr (FNumImputer col)"
| "fit_step (OneHot drop_first) col =
     (if col = [] \<or> length (cell_values col) \<noteq> length col then Inl InvalidData
      else Inr (FOneHot drop_first (sort (remdups (cell_values col)))))"
| "fit_step Standard col = Inr (FStandard col)"
| "fit_step Robust col = Inr (FRobust col)"

fun fit_steps :: "step \<Rightarrow> ('v::linorder) cell list list \<Rightarrow> error + 'v fitted_step list" where
  "fit_steps st [] = Inr []"
| "fit_steps st (col # cols) =
     (case fit_step st col of
        Inl e \<Rightarrow> Inl e
      | Inr f \<Rightarrow> (case fit_steps st cols of Inl e \<Rightarrow> Inl e | Inr fs \<Rightarrow> Inr (f # fs)))"

text \<open>A transformer whose column selection is empty is skipped.\<close>

fun fit_groups ::
  "transformers \<Rightarrow> ('v::linorder) frame \<Rightarrow>
   error + (string \<times> string list \<times> 'v fitted_step list) list" where
  "fit_groups [] X = Inr []"
| "fit_groups ((name, st, cols) # ts) X =
     (if cols = [] then fit_groups ts X
      else
        (case get_columns X cols of
           Inl e \<Rightarrow> Inl e
         | Inr cs \<Rightarrow>
             (case fit_steps st (map cvals cs) of
                Inl e \<Rightarrow> Inl e
              | Inr fs \<Rightarrow>
                  (case fit_groups ts X of
                     Inl e \<Rightarrow> Inl e
                   | Inr gs \<Rightarrow> Inr ((name, cols, fs) # gs)))))"

definition kept :: "bool \<Rightarrow> 'v list \<Rightarrow> 'v list" where
  "kept drop_first cats = (if drop_first then tl cats else cats)"

text \<open>
  The stored entries and the size of a transformer's output on a training column: the
  one-hot encoder stores its ones only, every other output is dense.
\<close>

fun step_counts :: "'v fitted_step \<Rightarrow> 'v cell list \<Rightarrow> nat \<times> nat" where
  "step_counts (FOneHot drop_first cats) col =
     (length (filter (\<lambda>c. c \<in> set (map Val (kept drop_first cats))) col),
      length col * length (kept drop_first cats))"
| "step_counts _ col = (length col, length col)"

fun group_counts ::
  "'v frame \<Rightarrow> string \<times> string list \<times> 'v fitted_step list \<Rightarrow> (nat \<times> nat) list" where
  "group_counts X (name, cols, fs) =
     (case get_columns X cols of
        Inl e \<Rightarrow> []
      | Inr cs \<Rightarrow> map (\<lambda>(f, col). step_counts f col) (zip fs (map cvals cs)))"

text \<open>
  \<open>ColumnTransformer.fit\<close>: the selections are resolved first, then every transformer is
  fitted on its columns; the remainder is the columns no transformer selected. The
  outputs on the training table decide \<open>sparse_output_\<close>: when one of them is sparse, the
  stacked result stays sparse if its density \<open>nnz / total\<close> is below the threshold 0.3, and
  the division raises when the outputs are empty.
\<close>

definition fit :: "transformers \<Rightarrow> ('v::linorder) frame \<Rightarrow> error + 'v fitted" where
  "fit ts X =
     (let selected = concat (map (\<lambda>t. snd (snd t)) ts) in
      case get_columns X selected of
        Inl e \<Rightarrow> Inl e
      | Inr _ \<Rightarrow>
          (case fit_groups ts X of
             Inl e \<Rightarrow> Inl e
           | Inr gs \<Rightarrow>
               (let rest = filter (\<lambda>c. cname c \<notin> set selected) X;
                    counts = concat (map (group_counts X) gs)
                             @ map (\<lambda>c. (length (cvals c), length (cvals c))) rest;
                    nnz = sum_list (map fst counts);
                    total = sum_list (map snd counts)
                in if list_ex (\<lambda>g. list_ex sparse_step (snd (snd g))) gs
                   then (if total = 0 then Inl ZeroDivision
                         else Inr \<lparr>groups = gs, remainder = map cname rest,
                                  sparse_output = (10 * nnz < 3 * total)\<rparr>)
                   else Inr \<lparr>groups = gs, remainder = map cname rest,
                            sparse_output = False\<rparr>)))"

fun apply_step :: "'v kernels \<Rightarrow> 'v fitted_step \<Rightarrow> 'v cell list \<Rightarrow> error + 'v cell list list" where
  "apply_step k FCatImputer col =
     Inr [map (\<lambda>c. if c = Missing then Val (fill_value k) else c) col]"
| "apply_step k (FNumImputer t) col = Inr [median_impute k t col]"
| "apply_step k (FOneHot drop_first cats) col =
     (if \<exists>c \<in> set col. c \<notin> set (map Val cats) then Inl UnknownCategory
      else Inr (map (\<lambda>t. map (\<lambda>c. Ind (c = Val t)) col) (kept drop_first cats)))"
| "apply_step k (FStandard t) col = Inr [standard_scaler k t col]"
| "apply_step k (FRobust t) col = Inr [robust_scaler k t col]"

text \<open>The output columns of a group, each with the dtype of the transformer's output.\<close>

fun apply_steps ::
  "'v kernels \<Rightarrow> 'v fitted_step list \<Rightarrow> 'v cell list list \<Rightarrow>
   error + (dtype \<times> 'v cell list) list" where
  "apply_steps k (f # fs) (col # cols) =
     (case apply_step k f col of
        Inl e \<Rightarrow> Inl e
      | Inr out \<Rightarrow>
          (case apply_steps k fs cols of
             Inl e \<Rightarrow> Inl e
           | Inr outs \<Rightarrow> Inr (map (Pair (step_dtype f)) out @ outs)))"
| "apply_steps k _ _ = Inr []"

fun transform_groups ::
  "'v kernels \<Rightarrow> (string \<times> string list \<times> 'v fitted_step list) list \<Rightarrow> 'v frame \<Rightarrow>
   error + (dtype \<times> 'v cell list) list" where
  "transform_groups k [] X = Inr []"
| "transform_groups k ((name, cols, fs) # gs) X =
     (case get_columns X cols of
        Inl e \<Rightarrow> Inl e
      | Inr cs \<Rightarrow>
          (case apply_steps k fs (map cvals cs) of
             Inl e \<Rightarrow> Inl e
           | Inr out \<Rightarrow>
               (case transform_groups k gs X of
                  Inl e \<Rightarrow> Inl e
                | Inr outs \<Rightarrow> Inr (out @ outs))))"

text \<open>
  The columns that \<open>ColumnTransformer.transform\<close> stacks: it first checks that the table
  has every remainder label seen at fit, then takes the outputs of the transformers, in
  the order of the transformer list, and last the remainder columns, selected by label
  (a label that several columns carry selects them all).
\<close>

definition pieces ::
  "'v kernels \<Rightarrow> 'v fitted \<Rightarrow> 'v frame \<Rightarrow> error + (dtype \<times> 'v cell list) list" where
  "pieces k ft X =
     (case filter (\<lambda>n. n \<notin> set (columns X)) (remainder ft) of
        n # _ \<Rightarrow> Inl (ColumnsMissing n)
      | [] \<Rightarrow>
          (case transform_groups k (groups ft) X of
             Inl e \<Rightarrow> Inl e
           | Inr outs \<Rightarrow>
               Inr (outs @ concat (map (\<lambda>n. map (\<lambda>c. (cdtype c, cvals c))
                                              (filter (\<lambda>c. cname c = n) X))
                                    (remainder ft)))))"

text \<open>
  Stacking into one array: columns of one and the same dtype are taken as they are;
  columns of several dtypes are all converted to the common dtype.
\<close>

definition stack :: "'v kernels \<Rightarrow> (dtype \<times> 'v cell list) list \<Rightarrow> 'v cell list list" where
  "stack k ps =
     (case map fst ps of
        [] \<Rightarrow> []
      | d # rest \<Rightarrow>
          if list_all (\<lambda>d'. d' = d) rest then map snd ps
          else map (\<lambda>p. map (coerce k (stacked_dtype k (d # rest))) (snd p)) ps)"

text \<open>
  The dtype of the stacked array. An array without columns is of dtype float64; the dtype
  of an array stacked from categorical columns is that of their categories.
\<close>

definition array_dtype :: "'v kernels \<Rightarrow> dtype list \<Rightarrow> dtype" where
  "array_dtype k ds =
     (case ds of
        [] \<Rightarrow> Float64
      | d # rest \<Rightarrow>
          if list_all (\<lambda>d'. d' = d) rest \<and> d \<noteq> CategoryDtype then d
          else stacked_dtype k ds)"

text \<open>
  \<open>ColumnTransformer.transform\<close>, as the columns of the array it returns. (When
  \<open>sparse_output_\<close> is set the result is a sparse matrix with these contents.)
\<close>

definition transform :: "'v kernels \<Rightarrow> 'v fitted \<Rightarrow> 'v frame \<Rightarrow> error + 'v cell list list" where
  "transform k ft X =
     (case pieces k ft X of
        Inl e \<Rightarrow> Inl e
      | Inr ps \<Rightarrow> Inr (stack k ps))"

definition transform_dtype :: "'v kernels \<Rightarrow> 'v fitted \<Rightarrow> 'v frame \<Rightarrow> dtype" where
  "transform_dtype k ft X =
     (case pieces k ft X of
        Inl e \<Rightarrow> Float64
      | Inr ps \<Rightarrow> array_dtype k (map fst ps))"

text \<open>\<open>named_transformers_.one_hot.get_feature_names(OHE)\<close>\<close>

fun feature_names :: "'v kernels \<Rightarrow> string list \<Rightarrow> 'v fitted_step list \<Rightarrow> string list" where
  "feature_names k (n # ns) (FOneHot drop_first cats # fs) =
     map (\<lambda>t. n @ ''_'' @ category_str k t) (kept drop_first cats) @ feature_names k ns fs"
| "feature_names k _ _ = []"

definition get_feature_names :: "'v kernels \<Rightarrow> 'v fitted \<Rightarrow> string list \<Rightarrow> string list" where
  "get_feature_names k ft input_features =
     (case find (\<lambda>g. fst g = ''one_hot'') (groups ft) of
        None \<Rightarrow> []
      | Some (name, cols, fs) \<Rightarrow> feature_names k input_features fs)"

text \<open>
  \<open>pd.DataFrame(data=..., columns=...)\<close> on an array of the given dtype: it needs one label
  per column of the array.
\<close>

definition DataFrame :: "dtype \<Rightarrow> 'v cell list list \<Rightarrow> string list \<Rightarrow> error + 'v frame" where
  "DataFrame d data names =
     (if length data \<noteq> length names then Inl (ShapeMismatch (length data) (length names))
      else Inr (map (\<lambda>(n, vals). \<lparr>cname = n, cdtype = d, cvals = vals\<rparr>) (zip names data)))"

section \<open>The label encoder\<close>

text \<open>\<open>LabelEncoder.fit\<close> stores the sorted distinct values of its argument as its classes.\<close>

definition label_fit :: "('v::linorder) list \<Rightarrow> 'v list" where
  "label_fit ys = sort (remdups ys)"

text \<open>
  Whether the encoder takes a cell of a column of dtype \<open>d\<close> for the class \<open>c\<close>. In a
  column of dtype object the encoder looks the cell up in a dictionary of its classes, so
  a value of the data matches the class equal to it. In every other case the comparison
  is numpy's. A missing cell matches no class.
\<close>

definition same_label :: "'v kernels \<Rightarrow> dtype \<Rightarrow> 'v cell \<Rightarrow> 'v \<Rightarrow> bool" where
  "same_label k d x c =
     (case x of
        Val v \<Rightarrow> if d = ObjectDtype then v = c else label_equal k d x c
      | Missing \<Rightarrow> False
      | _ \<Rightarrow> label_equal k d x c)"

text \<open>The code of a cell: the position of the first class it matches.\<close>

fun encode_cell :: "'v kernels \<Rightarrow> dtype \<Rightarrow> 'v list \<Rightarrow> 'v cell \<Rightarrow> nat option" where
  "encode_cell k d [] x = None"
| "encode_cell k d (c # classes) x =
     (if same_label k d x c then Some 0 else map_option Suc (encode_cell k d classes x))"

text \<open>\<open>LabelEncoder.transform\<close>: a cell that matches no class raises.\<close>

fun label_transform ::
  "'v kernels \<Rightarrow> dtype \<Rightarrow> 'v list \<Rightarrow> 'v cell list \<Rightarrow> error + 'v cell list" where
  "label_transform k d classes [] = Inr []"
| "label_transform k d classes (x # col) =
     (case encode_cell k d classes x of
        None \<Rightarrow> Inl UnseenLabel
      | Some i \<Rightarrow>
          (case label_transform k d classes col of
             Inl e \<Rightarrow> Inl e
           | Inr codes \<Rightarrow> Inr (Code i # codes)))"

text \<open>\<open>X[column] = le.transform(X[column])\<close>\<close>

definition encode_column ::
  "'v kernels \<Rightarrow> 'v list \<Rightarrow> string \<Rightarrow> 'v frame \<Rightarrow> error + 'v frame" where
  "encode_column k classes column X =
     (case get_column X column of
        Inl e \<Rightarrow> Inl e
      | Inr c \<Rightarrow>
          (case label_transform k (cdtype c) classes (cvals c) of
             Inl e \<Rightarrow> Inl e
           | Inr codes \<Rightarrow>
               Inr (map (\<lambda>c. if cname c = column then c\<lparr>cdtype := Int64, cvals := codes\<rparr> else c)
                      X)))"

definition set_obj :: "addr \<Rightarrow> 'v frame \<Rightarrow> 'v heap \<Rightarrow> 'v heap" where
  "set_obj a f h = h\<lparr>objs := (objs h)(a := f)\<rparr>"

text \<open>
  The loop over \<open>label_encode.keys()\<close>. The frames are updated in place; an exception leaves
  the updates made so far.
\<close>

fun label_loop ::
  "('v::linorder) kernels \<Rightarrow> (string \<times> 'v list) list \<Rightarrow> addr \<Rightarrow> addr option \<Rightarrow> 'v heap \<Rightarrow>
   error option \<times> 'v heap" where
  "label_loop k [] tr te h = (None, h)"
| "label_loop k ((column, ys) # rest) tr te h =
     (case encode_column k (label_fit ys) column (objs h tr) of
        Inl e \<Rightarrow> (Some e, h)
      | Inr f \<Rightarrow>
          (let h1 = set_obj tr f h in
           case te of
             None \<Rightarrow> label_loop k rest tr te h1
           | Some t \<Rightarrow>
               (case encode_column k (label_fit ys) column (objs h1 t) of
                  Inl e \<Rightarrow> (Some e, h1)
                | Inr g \<Rightarrow> label_loop k rest tr te (set_obj t g h1))))"

section \<open>\<open>preproc\<close>\<close>

fun first_nonempty :: "string list list \<Rightarrow> string list option" where
  "first_nonempty [] = None"
| "first_nonempty (element # rest) =
     (if length element > 0 then Some element else first_nonempty rest)"

definition column_transformer ::
  "bool \<Rightarrow> string list \<Rightarrow> string list \<Rightarrow> string list \<Rightarrow> string list \<Rightarrow> string list \<Rightarrow>
   transformers" where
  "column_transformer drop_first cat_cols num_cols ohe_cols std_cols rob_cols =
     [(''cat_imputer'', CatImputer, cat_cols),
      (''num_imputer'', NumImputer, num_cols),
      (''one_hot'', OneHot drop_first, ohe_cols),
      (''standard_scalar'', Standard, std_cols),
      (''robust_scalar'', Robust, rob_cols)]"

text \<open>
  The branch on \<open>auto\<close>: the conflict checks, the automatic choice of columns and the
  construction of the column transformer. The result carries the value of \<open>OHE\<close> that the
  rest of the function uses.
\<close>

definition build_transformer ::
  "bool \<Rightarrow> string list \<Rightarrow> string list \<Rightarrow> string list \<Rightarrow> string list \<Rightarrow> string list \<Rightarrow>
   string list \<Rightarrow> 'v frame \<Rightarrow> error + (string list \<times> transformers)" where
  "build_transformer is_auto ohe std rob num_imp cat_imp label_keys X =
     (if is_auto then
        (case first_nonempty [ohe, std, rob, num_imp, cat_imp] of
           Some element \<Rightarrow> Inl (ConfigConflict (ManualList element))
         | None \<Rightarrow>
             if length label_keys > 0 then Inl (ConfigConflict LabelKeys)
             else
               (let std' = select_dtypes X [Float64, Int64];
                    ohe' = select_dtypes X [ObjectDtype, BoolDtype, CategoryDtype]
                in Inr (ohe', column_transformer True cat_imp num_imp ohe' std' rob)))
      else Inr (ohe, column_transformer False cat_imp num_imp ohe std rob))"

text \<open>
  \<open>pd.DataFrame(data=transformer.transform(X), columns=column_names)\<close>. The constructor
  raises on a sparse matrix.
\<close>

definition rebuild ::
  "'v kernels \<Rightarrow> 'v fitted \<Rightarrow> string list \<Rightarrow> addr \<Rightarrow> 'v heap \<Rightarrow> error + (addr \<times> 'v heap)" where
  "rebuild k ft column_names a h =
     (case transform k ft (objs h a) of
        Inl e \<Rightarrow> Inl e
      | Inr data \<Rightarrow>
          if sparse_output ft then Inl SparseResult
          else
            (case DataFrame (transform_dtype k ft (objs h a)) data column_names of
               Inl e \<Rightarrow> Inl e
             | Inr f \<Rightarrow> Inr (new_frame f h)))"

definition finish ::
  "('v::linorder) kernels \<Rightarrow> (string \<times> 'v list) list \<Rightarrow> addr \<Rightarrow> addr option \<Rightarrow> 'v heap \<Rightarrow>
   (error + (addr \<times> addr option)) \<times> 'v heap" where
  "finish k label tr te h =
     (case label_loop k label tr te h of
        (Some e, h') \<Rightarrow> (Inl e, h')
      | (None, h') \<Rightarrow> (Inr (tr, te), h'))"

definition run ::
  "('v::linorder) kernels \<Rightarrow> bool \<Rightarrow> string list \<Rightarrow> string list \<Rightarrow> string list \<Rightarrow>
   string list \<Rightarrow> string list \<Rightarrow> (string \<times> 'v list) list \<Rightarrow> addr \<Rightarrow> addr option \<Rightarrow> 'v heap \<Rightarrow>
   (error + (addr \<times> addr option)) \<times> 'v heap" where
  "run k is_auto ohe std rob num_imp cat_imp label tr te h =
     (case build_transformer is_auto ohe std rob num_imp cat_imp (map fst label) (objs h tr) of
        Inl e \<Rightarrow> (Inl e, h)
      | Inr (ohe', ts) \<Rightarrow>
          (case fit ts (objs h tr) of
             Inl e \<Rightarrow> (Inl e, h)
           | Inr ft \<Rightarrow>
               (let ohe_columns =
                      (if length ohe' > 0 then get_feature_names k ft ohe' else []);
                    column_names =
                      ohe_columns @ filter (\<lambda>x. x \<notin> set ohe') (columns (objs h tr))
                in case rebuild k ft column_names tr h of
                     Inl e \<Rightarrow> (Inl e, h)
                   | Inr (tr', h3) \<Rightarrow>
                       (case te of
                          None \<Rightarrow> finish k label tr' None h3
                        | Some t \<Rightarrow>
                            (case rebuild k ft column_names t h3 of
                               Inl e \<Rightarrow> (Inl e, h3)
                             | Inr (te', h4) \<Rightarrow> finish k label tr' (Some te') h4)))))"

fun copy_test :: "addr option \<Rightarrow> 'v heap \<Rightarrow> addr option \<times> 'v heap" where
  "copy_test None h = (None, h)"
| "copy_test (Some a) h = (case copy_frame a h of (t, h') \<Rightarrow> (Some t, h'))"

text \<open>
  The whole function. The result is the raised exception or the pair of returned
  references, together with the store the call leaves behind.
\<close>

definition preproc ::
  "('v::linorder) kernels \<Rightarrow> 'v args \<Rightarrow> 'v heap \<Rightarrow> (error + (addr \<times> addr option)) \<times> 'v heap" where
  "preproc k a h =
     (case check_types (locals a) of
        Some e \<Rightarrow> (Inl e, h)
      | None \<Rightarrow>
          (case frame_ref (X_train a) of
             None \<Rightarrow>
               (Inl (TypeMismatch ''X_train'' (arg_types ''X_train'') (type_of (X_train a))), h)
           | Some a_tr \<Rightarrow>
               (case copy_frame a_tr h of
                  (tr, h1) \<Rightarrow>
                    (case copy_test (frame_ref (X_test a)) h1 of
                       (te, h2) \<Rightarrow>
                         run k (truth (auto a)) (names_of (OHE a))
                           (names_of (standard_scale a)) (names_of (robust_scale a))
                           (names_of (numerical_impute a)) (names_of (categorical_impute a))
                           (items_of (label_encode a)) tr te h2))))"

section \<open>Kernels and frames of the worked examples\<close>

text \<open>
  Kernels for tables of strings: every numeric kernel leaves its column as it is, and a
  cell matches a class when it is that string.
\<close>

definition plain_kernels :: "string kernels" where
  "plain_kernels =
     \<lparr>fill_value = ''missing'', median_impute = (\<lambda>t col. col),
      standard_scaler = (\<lambda>t col. col), robust_scaler = (\<lambda>t col. col),
      category_str = (\<lambda>s. s), stacked_dtype = (\<lambda>ds. ObjectDtype),
      coerce = (\<lambda>d x. x), label_equal = (\<lambda>d x c. x = Val c)\<rparr>"





definition people :: "string frame" where
  "people =
     [\<lparr>cname = ''age'', cdtype = Float64, cvals = [Val ''31'', Missing, Val ''45'']\<rparr>,
      \<lparr>cname = ''city'', cdtype = ObjectDtype, cvals = [Val ''NY'', Val ''LA'', Val ''NY'']\<rparr>]"

definition grades :: "string frame" where
  "grades = [\<lparr>cname = ''grade'', cdtype = ObjectDtype, cvals = [Val ''A'', Val ''F'']\<rparr>]"

text \<open>Two float columns holding 1.0, 2.0 and 10.0, 20.0.\<close>

definition scores :: "int frame" where
  "scores =
     [\<lparr>cname = ''a'', cdtype = Float64, cvals = [Val 1, Val 2]\<rparr>,
      \<lparr>cname = ''b'', cdtype = Float64, cvals = [Val 10, Val 20]\<rparr>]"



text \<open>A store holding one frame, at address 0.\<close>

definition store_of :: "'v frame \<Rightarrow> 'v heap" where
  "store_of X = \<lparr>objs = (\<lambda>_. [])(0 := X), fresh = 1\<rparr>"

section \<open>Argument validation\<close>

text \<open>The definitions that the worked examples unfold.\<close>

lemmas eval_defs = preproc_def run_def build_transformer_def column_transformer_def fit_def
  pieces_def stack_def array_dtype_def transform_def transform_dtype_def rebuild_def finish_def
  DataFrame_def new_frame_def copy_frame_def get_column_def columns_def encode_column_def
  same_label_def label_fit_def set_obj_def locals_def arg_types_def default_args_def
  store_of_def get_feature_names_def kept_def cell_values_def select_dtypes_def


lemma check_types_None:
  "check_types xs = None \<longleftrightarrow> (\<forall>(key, v)\<in>set xs. type_of v \<in> set (arg_types key))"
  by (induction xs) (auto split: if_splits)

lemma check_types_first:
  assumes "\<exists>(key, v)\<in>set xs. type_of v \<notin> set (arg_types key)"
  shows "\<exists>pre key v post. xs = pre @ (key, v) # post
           \<and> (\<forall>(key', v')\<in>set pre. type_of v' \<in> set (arg_types key'))
           \<and> type_of v \<notin> set (arg_types key)
           \<and> check_types xs = Some (TypeMismatch key (arg_types key) (type_of v))"
  using assms
proof (induction xs)
  case Nil
  then show ?case by simp
next
  case (Cons x xs)
  obtain key v where x: "x = (key, v)" by (cases x)
  show ?case
  proof (cases "type_of v \<in> set (arg_types key)")
    case False
    have "x # xs = [] @ (key, v) # xs" using x by simp
    moreover have "check_types (x # xs) = Some (TypeMismatch key (arg_types key) (type_of v))"
      using x False by simp
    moreover have "\<forall>(k, w)\<in>set []. type_of w \<in> set (arg_types k)" by simp
    ultimately show ?thesis using False by blast
  next
    case True
    with Cons.prems x have "\<exists>(key, v)\<in>set xs. type_of v \<notin> set (arg_types key)" by auto
    from Cons.IH[OF this] obtain pre key' v' post where
      p: "xs = pre @ (key', v') # post"
         "\<forall>(k, w)\<in>set pre. type_of w \<in> set (arg_types k)"
         "type_of v' \<notin> set (arg_types key')"
         "check_types xs = Some (TypeMismatch key' (arg_types key') (type_of v'))"
      by blast
    have "x # xs = (x # pre) @ (key', v') # post" using p(1) by simp
    moreover have "\<forall>(k, w)\<in>set (x # pre). type_of w \<in> set (arg_types k)"
      using p(2) True x by simp
    moreover have "check_types (x # xs) = Some (TypeMismatch key' (arg_types key') (type_of v'))"
      using p(4) True x by simp
    ultimately show ?thesis using p(3) by blast
  qed
qed

lemma locals_ok:
  "check_types (locals a) = None \<longleftrightarrow>
     type_of (X_train a) = TDataFrame \<and> type_of (X_test a) \<in> {TNoneType, TDataFrame}
     \<and> type_of (auto a) = TBool
     \<and> type_of (OHE a) \<in> {TList, TNdarray} \<and> type_of (standard_scale a) \<in> {TList, TNdarray}
     \<and> type_of (robust_scale a) \<in> {TList, TNdarray}
     \<and> type_of (numerical_impute a) \<in> {TList, TNdarray}
     \<and> type_of (categorical_impute a) \<in> {TList, TNdarray}
     \<and> type_of (label_encode a) = TDict"
  by (simp add: locals_def arg_types_def)

lemma typed_frame: "type_of v = TDataFrame \<Longrightarrow> \<exists>p. v = PyDataFrame p"
  by (cases v) auto

text \<open>
  C5. When some argument's runtime type is not among its permitted types, the call raises
  the type error for the first such argument in the order of the signature; the error
  names the argument, its permitted types and the type passed. Nothing has been done to
  the store at that point: not even the copies of the tables have been made.
\<close>

theorem preproc_type_mismatch:
  assumes "\<exists>(key, v)\<in>set (locals a). type_of v \<notin> set (arg_types key)"
  shows "\<exists>pre key v post. locals a = pre @ (key, v) # post
           \<and> (\<forall>(key', v')\<in>set pre. type_of v' \<in> set (arg_types key'))
           \<and> type_of v \<notin> set (arg_types key)
           \<and> preproc k a h = (Inl (TypeMismatch key (arg_types key) (type_of v)), h)"
proof -
  from check_types_first[OF assms] obtain pre key v post where
    p: "locals a = pre @ (key, v) # post"
       "\<forall>(k, w)\<in>set pre. type_of w \<in> set (arg_types k)"
       "type_of v \<notin> set (arg_types key)"
       "check_types (locals a) = Some (TypeMismatch key (arg_types key) (type_of v))"
    by blast
  have "preproc k a h = (Inl (TypeMismatch key (arg_types key) (type_of v)), h)"
    by (simp add: preproc_def p(4))
  with p show ?thesis by blast
qed

text \<open>
  The scenario of the specification: the training table passed as a plain sequence,
  together with \<open>standard_scale=["age"]\<close>.
\<close>

theorem preproc_type_mismatch_witness:
  "preproc plain_kernels
      ((default_args (PyList [''age'']))\<lparr>standard_scale := PyList [''age'']\<rparr>) (store_of people)
     = (Inl (TypeMismatch ''X_train'' [TDataFrame] TList), store_of people)"
proof -
  let ?a = "(default_args (PyList [''age'']))\<lparr>standard_scale := PyList [''age'']\<rparr> :: string args"
  have "\<exists>(key, v)\<in>set (locals ?a). type_of v \<notin> set (arg_types key)"
    by (simp add: locals_def default_args_def arg_types_def)
  from preproc_type_mismatch[OF this, of plain_kernels "store_of people"]
  obtain pre key v post where
    p: "locals ?a = pre @ (key, v) # post"
       "\<forall>(key', v')\<in>set pre. type_of v' \<in> set (arg_types key')"
       "preproc plain_kernels ?a (store_of people)
          = (Inl (TypeMismatch key (arg_types key) (type_of v)), store_of people)"
    by blast
  have "pre = []"
  proof (cases pre)
    case (Cons x xs)
    with p(1) have "x = (''X_train'', PyList [''age''])"
      by (simp add: locals_def default_args_def)
    with p(2) Cons show ?thesis by (simp add: arg_types_def)
  qed simp
  with p(1) have "key = ''X_train''" "v = PyList [''age'']"
    by (simp_all add: locals_def default_args_def)
  with p(3) show ?thesis by (simp add: arg_types_def)
qed

text \<open>
  C10. Each of the five column-list arguments must be exactly a list or a numpy array: when
  one of them has any other type (a tuple of column names, for instance), the call raises
  the type error and does nothing else.
\<close>

theorem column_list_exact_type:
  assumes "type_of (OHE a) \<notin> {TList, TNdarray} \<or> type_of (standard_scale a) \<notin> {TList, TNdarray}
         \<or> type_of (robust_scale a) \<notin> {TList, TNdarray}
         \<or> type_of (numerical_impute a) \<notin> {TList, TNdarray}
         \<or> type_of (categorical_impute a) \<notin> {TList, TNdarray}"
  shows "\<exists>key v. (key, v) \<in> set (locals a) \<and> type_of v \<notin> set (arg_types key) \<and>
           preproc k a h = (Inl (TypeMismatch key (arg_types key) (type_of v)), h)"
proof -
  have "check_types (locals a) \<noteq> None"
    using assms unfolding locals_ok by auto
  then have "\<exists>(key, v)\<in>set (locals a). type_of v \<notin> set (arg_types key)"
    unfolding check_types_None by blast
  from check_types_first[OF this] obtain pre key v post where
    p: "locals a = pre @ (key, v) # post"
       "type_of v \<notin> set (arg_types key)"
       "check_types (locals a) = Some (TypeMismatch key (arg_types key) (type_of v))"
    by blast
  have "preproc k a h = (Inl (TypeMismatch key (arg_types key) (type_of v)), h)"
    by (simp add: preproc_def p(3))
  moreover have "(key, v) \<in> set (locals a)" using p(1) by simp
  ultimately show ?thesis using p(2) by blast
qed

text \<open>A tuple of column names for \<open>standard_scale\<close>, with a proper training table.\<close>

theorem column_list_exact_type_witness:
  "preproc plain_kernels
      ((default_args (PyDataFrame 0))\<lparr>standard_scale := PyTuple [''age'']\<rparr>) (store_of people)
     = (Inl (TypeMismatch ''standard_scale'' [TList, TNdarray] TTuple), store_of people)"
proof -
  let ?a = "(default_args (PyDataFrame 0))\<lparr>standard_scale := PyTuple [''age'']\<rparr> :: string args"
  have "type_of (OHE ?a) \<notin> {TList, TNdarray} \<or> type_of (standard_scale ?a) \<notin> {TList, TNdarray}
         \<or> type_of (robust_scale ?a) \<notin> {TList, TNdarray}
         \<or> type_of (numerical_impute ?a) \<notin> {TList, TNdarray}
         \<or> type_of (categorical_impute ?a) \<notin> {TList, TNdarray}"
    by simp
  from column_list_exact_type[OF this, of plain_kernels "store_of people"]
  obtain key v where
    p: "(key, v) \<in> set (locals ?a)" "type_of v \<notin> set (arg_types key)"
       "preproc plain_kernels ?a (store_of people)
          = (Inl (TypeMismatch key (arg_types key) (type_of v)), store_of people)"
    by blast
  from p(1,2) have "key = ''standard_scale'' \<and> v = PyTuple [''age'']"
    by (auto simp: locals_def default_args_def arg_types_def)
  with p(3) show ?thesis by (simp add: arg_types_def)
qed

section \<open>Automatic and manual mode\<close>

lemma first_nonempty_None: "first_nonempty xs = None \<longleftrightarrow> (\<forall>x\<in>set xs. x = [])"
  by (induction xs) auto

lemma build_transformer_conflict:
  assumes "ohe \<noteq> [] \<or> std \<noteq> [] \<or> rob \<noteq> [] \<or> ni \<noteq> [] \<or> ci \<noteq> [] \<or> keys \<noteq> []"
  shows "\<exists>c. build_transformer True ohe std rob ni ci keys X = Inl (ConfigConflict c)"
proof (cases "first_nonempty [ohe, std, rob, ni, ci]")
  case None
  then have "keys \<noteq> []" using assms unfolding first_nonempty_None by auto
  then show ?thesis using None by (simp add: build_transformer_def)
next
  case (Some e)
  then show ?thesis by (simp add: build_transformer_def)
qed

text \<open>
  C3. A call that passes the type check with \<open>auto=True\<close> and with any of the five column
  lists or the label-encoding mapping non-empty raises the configuration error, whatever
  the lists contain. The store then holds the copies of the input tables and nothing
  else new: no table has been fitted, transformed or rebuilt.
\<close>

theorem auto_rejects_manual:
  assumes types: "check_types (locals a) = None"
    and is_auto: "auto a = PyBool True"
    and manual: "names_of (OHE a) \<noteq> [] \<or> names_of (standard_scale a) \<noteq> []
       \<or> names_of (robust_scale a) \<noteq> [] \<or> names_of (numerical_impute a) \<noteq> []
       \<or> names_of (categorical_impute a) \<noteq> [] \<or> items_of (label_encode a) \<noteq> []"
  shows "\<exists>p c. X_train a = PyDataFrame p \<and>
           preproc k a h =
             (Inl (ConfigConflict c), snd (copy_test (frame_ref (X_test a)) (snd (copy_frame p h))))"
proof -
  from types obtain p where p: "X_train a = PyDataFrame p"
    unfolding locals_ok using typed_frame by blast
  obtain tr h1 where c1: "copy_frame p h = (tr, h1)" by (cases "copy_frame p h")
  obtain te h2 where c2: "copy_test (frame_ref (X_test a)) h1 = (te, h2)"
    by (cases "copy_test (frame_ref (X_test a)) h1")
  from manual have "names_of (OHE a) \<noteq> [] \<or> names_of (standard_scale a) \<noteq> []
       \<or> names_of (robust_scale a) \<noteq> [] \<or> names_of (numerical_impute a) \<noteq> []
       \<or> names_of (categorical_impute a) \<noteq> [] \<or> map fst (items_of (label_encode a)) \<noteq> []"
    by simp
  from build_transformer_conflict[OF this] obtain c where
    "build_transformer True (names_of (OHE a)) (names_of (standard_scale a))
       (names_of (robust_scale a)) (names_of (numerical_impute a))
       (names_of (categorical_impute a)) (map fst (items_of (label_encode a))) (objs h2 tr)
     = Inl (ConfigConflict c)"
    by blast
  then have "preproc k a h = (Inl (ConfigConflict c), h2)"
    by (simp add: preproc_def types p c1 c2 is_auto run_def)
  then show ?thesis using p c1 c2 by simp
qed

text \<open>Automatic mode together with \<open>OHE=["age"]\<close>.\<close>

theorem auto_rejects_manual_witness:
  "preproc plain_kernels
       ((default_args (PyDataFrame 0))\<lparr>auto := PyBool True, OHE := PyList [''age'']\<rparr>)
       (store_of people)
     = (Inl (ConfigConflict (ManualList [''age''])),
        \<lparr>objs = (\<lambda>_. [])(0 := people, 1 := people), fresh = 2\<rparr>)"
proof -
  let ?a = "(default_args (PyDataFrame 0))\<lparr>auto := PyBool True, OHE := PyList [''age'']\<rparr>
             :: string args"
  have "check_types (locals ?a) = None" "auto ?a = PyBool True"
    by (simp_all add: locals_def default_args_def arg_types_def)
  from auto_rejects_manual[OF this, of plain_kernels "store_of people"]
  obtain p c where
    p: "X_train ?a = PyDataFrame p"
       "preproc plain_kernels ?a (store_of people) =
             (Inl (ConfigConflict c),
              snd (copy_test (frame_ref (X_test ?a)) (snd (copy_frame p (store_of people)))))"
    by auto
  have "fst (preproc plain_kernels ?a (store_of people)) = Inl (ConfigConflict (ManualList [''age'']))"
    by (simp add: eval_defs)
  with p(2) have "c = ManualList [''age'']" by simp
  moreover from p(1) have "p = 0" by (simp add: default_args_def)
  ultimately show ?thesis using p(2)
    by (simp add: default_args_def copy_frame_def new_frame_def store_of_def)
qed






section \<open>The caller's tables are left alone\<close>

lemma new_frame_frame:
  assumes "new_frame f h = (a, h')"
  shows "a = fresh h" and "fresh h' = Suc (fresh h)" and "objs h' = (objs h)(fresh h := f)"
  using assms by (auto simp: new_frame_def)

lemma label_loop_frame:
  assumes "label_loop k l tr te h = (r, h')"
  shows "fresh h' = fresh h \<and> (\<forall>x. x \<noteq> tr \<and> Some x \<noteq> te \<longrightarrow> objs h' x = objs h x)"
  using assms
proof (induction k l tr te h rule: label_loop.induct)
  case (1 k tr te h)
  then show ?case by simp
next
  case (2 k column ys rest tr te h)
  show ?case
  proof (cases "encode_column k (label_fit ys) column (objs h tr)")
    case (Inl e)
    with "2.prems" show ?thesis by simp
  next
    case (Inr f)
    note f = this
    show ?thesis
    proof (cases te)
      case None
      with "2.prems" f have "label_loop k rest tr te (set_obj tr f h) = (r, h')" by simp
      from "2.IH"(1)[OF f refl None this] show ?thesis by (simp add: set_obj_def)
    next
      case (Some t)
      show ?thesis
      proof (cases "encode_column k (label_fit ys) column (objs (set_obj tr f h) t)")
        case (Inl e)
        with "2.prems" f Some show ?thesis by (auto simp: set_obj_def)
      next
        case (Inr g)
        with "2.prems" f Some
        have "label_loop k rest tr te (set_obj t g (set_obj tr f h)) = (r, h')" by simp
        from "2.IH"(2)[OF f refl Some Inr this] show ?thesis using Some
          by (auto simp: set_obj_def)
      qed
    qed
  qed
qed

lemma finish_frame:
  assumes "finish k l tr te h = (r, h')"
  shows "fresh h' = fresh h \<and> (\<forall>x. x \<noteq> tr \<and> Some x \<noteq> te \<longrightarrow> objs h' x = objs h x)"
proof -
  obtain e h2 where l: "label_loop k l tr te h = (e, h2)" by (cases "label_loop k l tr te h")
  with assms have "h' = h2" by (auto simp: finish_def split: option.splits)
  with label_loop_frame[OF l] show ?thesis by simp
qed

lemma rebuild_frame:
  assumes "rebuild k ft names a h = Inr (b, h')"
  shows "b = fresh h" and "fresh h' = Suc (fresh h)"
    and "\<exists>f. objs h' = (objs h)(fresh h := f)"
  using assms by (auto simp: rebuild_def new_frame_def split: sum.splits if_splits)

lemma run_frame:
  assumes "run k au ohe std rob ni ci l tr te h = (r, h')"
  shows "fresh h \<le> fresh h' \<and> (\<forall>x<fresh h. objs h' x = objs h x)"
proof (cases "build_transformer au ohe std rob ni ci (map fst l) (objs h tr)")
  case (Inl e)
  with assms show ?thesis by (simp add: run_def)
next
  case (Inr p)
  obtain ohe' ts where p: "p = (ohe', ts)" by (cases p)
  show ?thesis
  proof (cases "fit ts (objs h tr)")
    case (Inl e)
    with assms Inr p show ?thesis by (simp add: run_def)
  next
    case ft: (Inr ft)
    define names where "names = (if length ohe' > 0 then get_feature_names k ft ohe' else [])
        @ filter (\<lambda>x. x \<notin> set ohe') (columns (objs h tr))"
    show ?thesis
    proof (cases "rebuild k ft names tr h")
      case (Inl e)
      with assms Inr p ft show ?thesis by (simp add: run_def names_def Let_def)
    next
      case r1: (Inr q)
      obtain tr' h3 where q: "q = (tr', h3)" by (cases q)
      note f1 = rebuild_frame[OF r1[unfolded q]]
      show ?thesis
      proof (cases te)
        case None
        with assms Inr p ft r1 q have "finish k l tr' None h3 = (r, h')"
          by (simp add: run_def names_def Let_def)
        from finish_frame[OF this] f1 show ?thesis by auto
      next
        case (Some t)
        show ?thesis
        proof (cases "rebuild k ft names t h3")
          case (Inl e)
          with assms Inr p ft r1 q Some have "h' = h3"
            by (simp add: run_def names_def Let_def)
          with f1 show ?thesis by auto
        next
          case r2: (Inr q2)
          obtain te' h4 where q2: "q2 = (te', h4)" by (cases q2)
          note f2 = rebuild_frame[OF r2[unfolded q2]]
          from assms Inr p ft r1 q Some r2 q2 have "finish k l tr' (Some te') h4 = (r, h')"
            by (simp add: run_def names_def Let_def)
          from finish_frame[OF this] f1 f2 show ?thesis by auto
        qed
      qed
    qed
  qed
qed

lemma copy_test_frame:
  assumes "copy_test r h = (te, h')"
  shows "fresh h \<le> fresh h' \<and> (\<forall>x<fresh h. objs h' x = objs h x)"
  using assms by (cases r) (auto simp: copy_frame_def new_frame_def)

text \<open>
  C8. Every frame that exists when \<open>preproc\<close> is called, and so the caller's train and test
  tables, holds after the call exactly the columns and values it held before, whether the
  call returns or raises: the in-place updates of the label encoding reach only frames
  the call has created itself.
\<close>

theorem inputs_never_modified:
  assumes "x < fresh h"
  shows "objs (snd (preproc k a h)) x = objs h x"
proof (cases "check_types (locals a)")
  case (Some e)
  then show ?thesis by (simp add: preproc_def)
next
  case None
  then obtain p where p: "X_train a = PyDataFrame p"
    unfolding locals_ok using typed_frame by blast
  obtain tr h1 where c1: "copy_frame p h = (tr, h1)" by (cases "copy_frame p h")
  obtain te h2 where c2: "copy_test (frame_ref (X_test a)) h1 = (te, h2)"
    by (cases "copy_test (frame_ref (X_test a)) h1")
  obtain r h' where rn: "run k (truth (auto a)) (names_of (OHE a))
                           (names_of (standard_scale a)) (names_of (robust_scale a))
                           (names_of (numerical_impute a)) (names_of (categorical_impute a))
                           (items_of (label_encode a)) tr te h2 = (r, h')"
    by (cases "run k (truth (auto a)) (names_of (OHE a))
                           (names_of (standard_scale a)) (names_of (robust_scale a))
                           (names_of (numerical_impute a)) (names_of (categorical_impute a))
                           (items_of (label_encode a)) tr te h2")
  have "snd (preproc k a h) = h'"
    by (simp add: preproc_def None p c1 c2 rn)
  moreover have "fresh h \<le> fresh h1 \<and> (\<forall>x<fresh h. objs h1 x = objs h x)"
    using c1 by (auto simp: copy_frame_def new_frame_def)
  moreover note copy_test_frame[OF c2] run_frame[OF rn]
  ultimately show ?thesis using assms by auto
qed

text \<open>The training table of a call that label-encodes its only column.\<close>

theorem inputs_never_modified_witness:
  "objs (snd (preproc plain_kernels ((default_args (PyDataFrame 0))
          \<lparr>label_encode := PyDict [(''grade'', [''F'', ''D'', ''C'', ''B'', ''A''])]\<rparr>)
        (store_of grades))) 0 = grades"
  using inputs_never_modified[of 0 "store_of grades" plain_kernels
      "(default_args (PyDataFrame 0))
          \<lparr>label_encode := PyDict [(''grade'', [''F'', ''D'', ''C'', ''B'', ''A''])]\<rparr>"]
  by (simp add: store_of_def)

section \<open>The call after the type check\<close>

lemma preproc_run:
  assumes "check_types (locals a) = None" and "X_train a = PyDataFrame p"
  shows "preproc k a h =
     (case copy_test (frame_ref (X_test a)) (snd (copy_frame p h)) of
        (te, h2) \<Rightarrow>
          run k (truth (auto a)) (names_of (OHE a))
            (names_of (standard_scale a)) (names_of (robust_scale a))
            (names_of (numerical_impute a)) (names_of (categorical_impute a))
            (items_of (label_encode a)) (fresh h) te h2)"
  using assms by (simp add: preproc_def copy_frame_def new_frame_def)

section \<open>Default arguments\<close>












section \<open>Train and test\<close>

lemma encode_column_columns:
  assumes "encode_column k classes n X = Inr Y"
  shows "columns Y = columns X"
  using assms by (auto simp: encode_column_def columns_def split: sum.splits)

lemma label_loop_pair:
  assumes "label_loop k l tr (Some t) h = (None, h')" and "tr \<noteq> t"
  shows "columns (objs h' tr) = columns (objs h tr) \<and> columns (objs h' t) = columns (objs h t)
       \<and> (objs h t = objs h tr \<longrightarrow> objs h' t = objs h' tr)"
  using assms
proof (induction l arbitrary: h)
  case Nil
  then show ?case by simp
next
  case (Cons x l)
  obtain column ys where x: "x = (column, ys)" by (cases x)
  from Cons.prems(1) x obtain f where
    f: "encode_column k (label_fit ys) column (objs h tr) = Inr f"
    by (auto split: sum.splits)
  let ?h1 = "set_obj tr f h"
  have t1: "objs ?h1 t = objs h t" using Cons.prems(2) by (simp add: set_obj_def)
  from Cons.prems(1) x f obtain g where
    g: "encode_column k (label_fit ys) column (objs h t) = Inr g"
    by (auto simp: t1 Let_def split: sum.splits)
  let ?h2 = "set_obj t g ?h1"
  have rest: "label_loop k l tr (Some t) ?h2 = (None, h')"
    using Cons.prems(1) x f g by (simp add: t1 Let_def)
  have o: "objs ?h2 tr = f" "objs ?h2 t = g" using Cons.prems(2) by (simp_all add: set_obj_def)
  from Cons.IH[OF rest Cons.prems(2)] have
    "columns (objs h' tr) = columns f" "columns (objs h' t) = columns g"
    "g = f \<longrightarrow> objs h' t = objs h' tr"
    by (simp_all add: o)
  moreover have "objs h t = objs h tr \<longrightarrow> g = f" using f g by auto
  ultimately show ?case
    using encode_column_columns[OF f] encode_column_columns[OF g] by simp
qed

lemma rebuild_Inr:
  assumes "rebuild k ft names a h = Inr (b, h')"
  shows "\<exists>data f. transform k ft (objs h a) = Inr data
           \<and> DataFrame (transform_dtype k ft (objs h a)) data names = Inr f
           \<and> b = fresh h \<and> fresh h' = Suc (fresh h) \<and> objs h' = (objs h)(fresh h := f)"
  using assms by (auto simp: rebuild_def new_frame_def split: sum.splits if_splits)

lemma DataFrame_columns:
  assumes "DataFrame d data names = Inr f"
  shows "columns f = names"
  using assms
  by (auto simp: DataFrame_def columns_def split: if_splits intro: nth_equalityI)

lemma finish_Inr:
  assumes "finish k l tr te h = (Inr r, h')"
  shows "r = (tr, te) \<and> label_loop k l tr te h = (None, h')"
  using assms by (auto simp: finish_def split: prod.splits option.splits)

lemma run_pair:
  assumes run: "run k au ohe std rob ni ci l tr (Some t) h = (Inr (tr', te'), h')"
    and tr: "tr < fresh h" and t: "t < fresh h"
  shows "\<exists>t'. te' = Some t' \<and> columns (objs h' t') = columns (objs h' tr')
          \<and> (objs h t = objs h tr \<longrightarrow> objs h' t' = objs h' tr')"
proof -
  from run obtain ohe' ts where
    bt: "build_transformer au ohe std rob ni ci (map fst l) (objs h tr) = Inr (ohe', ts)"
    by (auto simp: run_def split: sum.splits)
  from run bt obtain ft where ft: "fit ts (objs h tr) = Inr ft"
    by (auto simp: run_def split: sum.splits)
  define names where "names = (if length ohe' > 0 then get_feature_names k ft ohe' else [])
        @ filter (\<lambda>x. x \<notin> set ohe') (columns (objs h tr))"
  from run bt ft obtain a3 h3 where r1: "rebuild k ft names tr h = Inr (a3, h3)"
    by (auto simp: run_def names_def Let_def split: sum.splits)
  from run bt ft r1 obtain a4 h4 where r2: "rebuild k ft names t h3 = Inr (a4, h4)"
    by (auto simp: run_def names_def Let_def split: sum.splits)
  from run bt ft r1 r2 have fin: "finish k l a3 (Some a4) h4 = (Inr (tr', te'), h')"
    by (simp add: run_def names_def Let_def)
  from finish_Inr[OF fin] have res: "tr' = a3" "te' = Some a4"
    and ll: "label_loop k l a3 (Some a4) h4 = (None, h')" by simp_all
  from rebuild_Inr[OF r1] obtain d1 f where
    f: "transform k ft (objs h tr) = Inr d1"
       "DataFrame (transform_dtype k ft (objs h tr)) d1 names = Inr f"
       "a3 = fresh h" "fresh h3 = Suc (fresh h)" "objs h3 = (objs h)(fresh h := f)"
    by blast
  from rebuild_Inr[OF r2] obtain d2 g where
    g: "transform k ft (objs h3 t) = Inr d2"
       "DataFrame (transform_dtype k ft (objs h3 t)) d2 names = Inr g"
       "a4 = fresh h3" "objs h4 = (objs h3)(fresh h3 := g)"
    by blast
  have ne: "a3 \<noteq> a4" using f(3,4) g(3) by simp
  have o4: "objs h4 a3 = f" "objs h4 a4 = g" using f g by simp_all
  have ht: "objs h3 t = objs h t" using t f(5) by simp
  have "objs h t = objs h tr \<longrightarrow> g = f" using f(1,2) g(1,2) ht by auto
  moreover have "columns g = columns f"
    using DataFrame_columns[OF f(2)] DataFrame_columns[OF g(2)] by simp
  ultimately show ?thesis
    using label_loop_pair[OF ll ne] res by (simp add: o4)
qed

lemma encode_column_keeps:
  assumes "encode_column k cl n X = Inr Y"
  shows "length Y = length X"
    and "\<And>i. i < length X \<Longrightarrow> cname (Y ! i) = cname (X ! i)"
    and "\<And>i. i < length X \<Longrightarrow> cname (X ! i) \<noteq> n \<Longrightarrow> Y ! i = X ! i"
  using assms by (auto simp: encode_column_def split: sum.splits)

lemma label_loop_keeps:
  assumes "label_loop k l tr (Some t) h = (None, h')" and "tr \<noteq> t" and "x = tr \<or> x = t"
  shows "length (objs h' x) = length (objs h x)
       \<and> (\<forall>i<length (objs h x). cname (objs h x ! i) \<notin> fst ` set l
             \<longrightarrow> objs h' x ! i = objs h x ! i)"
  using assms
proof (induction l arbitrary: h)
  case Nil
  then show ?case by simp
next
  case (Cons a l)
  obtain column ys where a: "a = (column, ys)" by (cases a)
  from Cons.prems(1) a obtain f where
    f: "encode_column k (label_fit ys) column (objs h tr) = Inr f"
    by (auto split: sum.splits)
  let ?h1 = "set_obj tr f h"
  have t1: "objs ?h1 t = objs h t" using Cons.prems(2) by (simp add: set_obj_def)
  from Cons.prems(1) a f obtain g where
    g: "encode_column k (label_fit ys) column (objs h t) = Inr g"
    by (auto simp: t1 Let_def split: sum.splits)
  let ?h2 = "set_obj t g ?h1"
  have rest: "label_loop k l tr (Some t) ?h2 = (None, h')"
    using Cons.prems(1) a f g by (simp add: t1 Let_def)
  have o: "objs ?h2 tr = f" "objs ?h2 t = g" using Cons.prems(2) by (simp_all add: set_obj_def)
  obtain Y where Y: "encode_column k (label_fit ys) column (objs h x) = Inr Y" "objs ?h2 x = Y"
    using Cons.prems(3) f g o by auto
  note k = encode_column_keeps[OF Y(1)]
  from Cons.IH[OF rest Cons.prems(2,3)] have
    ih: "length (objs h' x) = length Y"
        "\<forall>i<length Y. cname (Y ! i) \<notin> fst ` set l \<longrightarrow> objs h' x ! i = Y ! i"
    by (simp_all add: Y(2))
  show ?case
  proof (intro conjI allI impI)
    show "length (objs h' x) = length (objs h x)" using ih(1) k(1) by simp
  next
    fix i assume i: "i < length (objs h x)"
      and nk: "cname (objs h x ! i) \<notin> fst ` set (a # l)"
    from nk a have "cname (objs h x ! i) \<noteq> column" "cname (objs h x ! i) \<notin> fst ` set l"
      by auto
    with k(3)[OF i] ih(2) i k(1) show "objs h' x ! i = objs h x ! i" by simp
  qed
qed

lemma DataFrame_cells:
  assumes "DataFrame d data names = Inr f"
  shows "length f = length data" and "map cvals f = data"
  using assms
  by (auto simp: DataFrame_def split: if_splits intro: nth_equalityI)

lemma run_fitted_on_train:
  assumes run: "run k au ohe std rob ni ci l tr (Some t) h = (Inr (tr', Some t'), h')"
    and tr: "tr < fresh h" and t: "t < fresh h"
  shows "\<exists>ohe' ts ft data.
           build_transformer au ohe std rob ni ci (map fst l) (objs h tr) = Inr (ohe', ts)
         \<and> fit ts (objs h tr) = Inr ft
         \<and> transform k ft (objs h t) = Inr data
         \<and> length (objs h' t') = length data
         \<and> (\<forall>i<length data. cname (objs h' t' ! i) \<notin> fst ` set l
               \<longrightarrow> cvals (objs h' t' ! i) = data ! i)"
proof -
  from run obtain ohe' ts where
    bt: "build_transformer au ohe std rob ni ci (map fst l) (objs h tr) = Inr (ohe', ts)"
    by (auto simp: run_def split: sum.splits)
  from run bt obtain ft where ft: "fit ts (objs h tr) = Inr ft"
    by (auto simp: run_def split: sum.splits)
  define names where "names = (if length ohe' > 0 then get_feature_names k ft ohe' else [])
        @ filter (\<lambda>x. x \<notin> set ohe') (columns (objs h tr))"
  from run bt ft obtain a3 h3 where r1: "rebuild k ft names tr h = Inr (a3, h3)"
    by (auto simp: run_def names_def Let_def split: sum.splits)
  from run bt ft r1 obtain a4 h4 where r2: "rebuild k ft names t h3 = Inr (a4, h4)"
    by (auto simp: run_def names_def Let_def split: sum.splits)
  from run bt ft r1 r2 have fin: "finish k l a3 (Some a4) h4 = (Inr (tr', Some t'), h')"
    by (simp add: run_def names_def Let_def)
  from finish_Inr[OF fin] have res: "tr' = a3" "t' = a4"
    and ll: "label_loop k l a3 (Some a4) h4 = (None, h')" by simp_all
  from rebuild_Inr[OF r1] have
    f: "a3 = fresh h" "fresh h3 = Suc (fresh h)" "\<exists>f. objs h3 = (objs h)(fresh h := f)"
    by auto
  from rebuild_Inr[OF r2] obtain d2 g where
    g: "transform k ft (objs h3 t) = Inr d2"
       "DataFrame (transform_dtype k ft (objs h3 t)) d2 names = Inr g"
       "a4 = fresh h3" "objs h4 = (objs h3)(fresh h3 := g)"
    by blast
  have ne: "a3 \<noteq> a4" using f(1,2) g(3) by simp
  have o4: "objs h4 a4 = g" using g by simp
  have ht: "objs h3 t = objs h t" using t f(3) by auto
  note cells = DataFrame_cells[OF g(2)]
  from label_loop_keeps[OF ll ne, of a4] have
    keep: "length (objs h' a4) = length g"
      "\<forall>i<length g. cname (g ! i) \<notin> fst ` set l \<longrightarrow> objs h' a4 ! i = g ! i"
    by (simp_all add: o4)
  have names_kept: "cname (objs h' a4 ! i) = cname (g ! i)" if "i < length g" for i
  proof -
    from label_loop_pair[OF ll ne] have "columns (objs h' a4) = columns g" by (simp add: o4)
    then show ?thesis using that keep(1) unfolding columns_def by (metis nth_map)
  qed
  have "cvals (objs h' a4 ! i) = d2 ! i"
    if "i < length d2" "cname (objs h' a4 ! i) \<notin> fst ` set l" for i
  proof -
    from that cells(1) have i: "i < length g" by simp
    with that(2) names_kept keep(2) have "objs h' a4 ! i = g ! i" by simp
    moreover have "cvals (g ! i) = d2 ! i" using cells(2) i by (metis nth_map)
    ultimately show ?thesis by simp
  qed
  then show ?thesis using bt ft g(1) keep(1) cells(1) res ht by auto
qed

text \<open>
  C6. When a test table is supplied and the call returns, the returned test table carries
  the column names of the returned train table; and when the test table holds the same
  columns and values as the training table, the two returned tables are equal. The
  returned test table is the output, on the test table, of the transformer fitted on the
  training table: column by column, outside the label-encoded columns, it holds that
  output.
\<close>

theorem test_follows_train:
  assumes args: "X_train a = PyDataFrame p" "X_test a = PyDataFrame q"
    and live: "p < fresh h" "q < fresh h"
    and result: "preproc k a h = (Inr (tr, te), h')"
  shows "\<exists>t. te = Some t \<and> columns (objs h' t) = columns (objs h' tr)
          \<and> (objs h q = objs h p \<longrightarrow> objs h' t = objs h' tr)
          \<and> (\<exists>ohe' ts ft data.
                build_transformer (truth (auto a)) (names_of (OHE a))
                  (names_of (standard_scale a)) (names_of (robust_scale a))
                  (names_of (numerical_impute a)) (names_of (categorical_impute a))
                  (map fst (items_of (label_encode a))) (objs h p) = Inr (ohe', ts)
              \<and> fit ts (objs h p) = Inr ft
              \<and> transform k ft (objs h q) = Inr data
              \<and> length (objs h' t) = length data
              \<and> (\<forall>i<length data.
                     cname (objs h' t ! i) \<notin> fst ` set (items_of (label_encode a))
                     \<longrightarrow> cvals (objs h' t ! i) = data ! i))"
proof -
  have types: "check_types (locals a) = None"
    using result by (auto simp: preproc_def split: option.splits)
  define h1 where "h1 = snd (copy_frame p h)"
  define h2 where "h2 = snd (copy_frame q h1)"
  have h1: "fresh h1 = Suc (fresh h)" "objs h1 = (objs h)(fresh h := objs h p)"
    by (simp_all add: h1_def copy_frame_def new_frame_def)
  have h2: "fresh h2 = Suc (Suc (fresh h))" "objs h2 (fresh h) = objs h p"
    "objs h2 (Suc (fresh h)) = objs h q"
    using live by (simp_all add: h2_def copy_frame_def new_frame_def h1)
  have "copy_test (Some q) h1 = (Some (Suc (fresh h)), h2)"
    by (simp add: h2_def copy_frame_def new_frame_def h1(1))
  then have ct: "copy_test (frame_ref (X_test a)) (snd (copy_frame p h)) = (Some (Suc (fresh h)), h2)"
    by (simp add: args(2) h1_def)
  have rn: "run k (truth (auto a)) (names_of (OHE a))
            (names_of (standard_scale a)) (names_of (robust_scale a))
            (names_of (numerical_impute a)) (names_of (categorical_impute a))
            (items_of (label_encode a)) (fresh h) (Some (Suc (fresh h))) h2 = (Inr (tr, te), h')"
    using result unfolding preproc_run[OF types args(1)] ct by simp
  from run_pair[OF rn] obtain t where
    t: "te = Some t" "columns (objs h' t) = columns (objs h' tr)"
       "objs h q = objs h p \<longrightarrow> objs h' t = objs h' tr"
    by (auto simp: h2)
  from run_fitted_on_train[OF rn[unfolded t(1)]] t show ?thesis
    by (simp add: h2)
qed

text \<open>
  The same table as train and as test, with a one-hot column and a scaled column: the
  call returns the frames at addresses 3 and 4, and they are equal.
\<close>

theorem test_follows_train_witness:
  "fst (preproc plain_kernels
         ((default_args (PyDataFrame 0))
            \<lparr>X_test := PyDataFrame 0, OHE := PyList [''city''], standard_scale := PyList [''age'']\<rparr>)
         (store_of people)) = Inr (3, Some 4)
   \<and> objs (snd (preproc plain_kernels
         ((default_args (PyDataFrame 0))
            \<lparr>X_test := PyDataFrame 0, OHE := PyList [''city''], standard_scale := PyList [''age'']\<rparr>)
         (store_of people))) 4
     = objs (snd (preproc plain_kernels
         ((default_args (PyDataFrame 0))
            \<lparr>X_test := PyDataFrame 0, OHE := PyList [''city''], standard_scale := PyList [''age'']\<rparr>)
         (store_of people))) 3"
proof -
  let ?a = "(default_args (PyDataFrame 0))
            \<lparr>X_test := PyDataFrame 0, OHE := PyList [''city''], standard_scale := PyList [''age'']\<rparr>
            :: string args"
  let ?r = "preproc plain_kernels ?a (store_of people)"
  have r: "fst ?r = Inr (3, Some 4)"
    by (simp add: eval_defs people_def Let_def plain_kernels_def)
  then have "?r = (Inr (3, Some 4), snd ?r)" by (metis prod.collapse)
  from test_follows_train[OF _ _ _ _ this, of 0 0]
  have "objs (snd ?r) 4 = objs (snd ?r) 3"
    by (simp add: default_args_def store_of_def)
  with r show ?thesis by simp
qed

section \<open>Unseen labels\<close>












section \<open>Where the code departs from its description\<close>

text \<open>
  C1. The label encoder stores the sorted distinct values of the caller's list as its
  classes, so the code of a value is its position in the sorted list and not in the list
  as the caller gave it: with \<open>label_encode={"grade": ["F","D","C","B","A"]}\<close> and a column
  holding A and F, the returned column holds 0 for A and 4 for F.
\<close>

theorem label_codes_sorted:
  "fst (preproc k ((default_args (PyDataFrame 0))
          \<lparr>label_encode := PyDict [(''grade'', [''F'', ''D'', ''C'', ''B'', ''A''])]\<rparr>)
        (store_of grades)) = Inr (2, None)
   \<and> objs (snd (preproc k ((default_args (PyDataFrame 0))
          \<lparr>label_encode := PyDict [(''grade'', [''F'', ''D'', ''C'', ''B'', ''A''])]\<rparr>)
        (store_of grades))) 2
     = [\<lparr>cname = ''grade'', cdtype = Int64, cvals = [Code 0, Code 4]\<rparr>]"
  by (simp add: eval_defs grades_def Let_def)

text \<open>
  C2. The column transformer emits the outputs of its transformers first, in the order of
  the transformer list, and the untouched columns last, while the labels given to the
  rebuilt table keep the original column order. With float columns \<open>a\<close>, \<open>b\<close> and
  \<open>standard_scale=["b"]\<close>, the returned column labelled \<open>a\<close> holds the scaled values of
  \<open>b\<close> and the column labelled \<open>b\<close> holds the values of \<open>a\<close>.
\<close>

theorem scaled_column_mislabelled:
  "fst (preproc k ((default_args (PyDataFrame 0))\<lparr>standard_scale := PyList [''b'']\<rparr>)
        (store_of scores)) = Inr (2, None)
   \<and> map (\<lambda>c. (cname c, cvals c))
       (objs (snd (preproc k ((default_args (PyDataFrame 0))\<lparr>standard_scale := PyList [''b'']\<rparr>)
        (store_of scores))) 2)
     = [(''a'', standard_scaler k [Val 10, Val 20] [Val 10, Val 20]),
        (''b'', [Val 1, Val 2])]"
  by (simp add: eval_defs scores_def Let_def)

end
